theory Spec2Isabelle
  imports Main "HOL-Library.Sublist"
begin

section \<open>Python strings\<close>

text \<open>
  A value of type \<open>string\<close> stands for the Python \<open>str\<close> whose code points are the
  codes of its characters, so it covers the strings over U+0000 .. U+00FF. The form fields
  \<open>Digits\<close> and \<open>CallSid\<close>, the pincode, the place names and the URLs are of this type.
  Text that holds Devanagari or Gujarati letters (the composed message) is a list of code
  points, \<open>utext\<close>; \<open>u\<close> embeds a \<open>string\<close> into it.
\<close>

type_synonym utext = "int list"

definition u :: "string \<Rightarrow> utext" where
  "u s = map of_char s"

datatype py_error = ValueError | OtherException

text \<open>\<open>needle in hay\<close> on strings: \<open>needle\<close> occurs as a contiguous run of \<open>hay\<close>.\<close>

fun starts_with :: "'a list \<Rightarrow> 'a list \<Rightarrow> bool" where
  "starts_with [] ys = True"
| "starts_with (x # xs) [] = False"
| "starts_with (x # xs) (y # ys) = (x = y \<and> starts_with xs ys)"

fun py_in :: "'a list \<Rightarrow> 'a list \<Rightarrow> bool" where
  "py_in needle [] = starts_with needle []"
| "py_in needle (y # ys) = (starts_with needle (y # ys) \<or> py_in needle ys)"

text \<open>
  \<open>str.isdigit()\<close>: true when the string is not empty and every character has the Unicode
  property Numeric_Type=Digit or Numeric_Type=Decimal. Below U+0100 these are the ten
  decimal digits and the superscripts U+00B2, U+00B3 and U+00B9.
\<close>

definition py_isdecimal_char :: "char \<Rightarrow> bool" where
  "py_isdecimal_char c \<longleftrightarrow> 48 \<le> (of_char c :: int) \<and> (of_char c :: int) \<le> 57"

definition py_isdigit_char :: "char \<Rightarrow> bool" where
  "py_isdigit_char c \<longleftrightarrow>
     py_isdecimal_char c \<or> c = CHR 0xB2 \<or> c = CHR 0xB3 \<or> c = CHR 0xB9"

definition py_isdigit :: "string \<Rightarrow> bool" where
  "py_isdigit s \<longleftrightarrow> s \<noteq> [] \<and> list_all py_isdigit_char s"

text \<open>
  \<open>int(s)\<close> in base 10 for a string that \<open>isdigit()\<close> accepted: the value when every
  character is a decimal digit and there are at most 4300 of them, \<open>ValueError\<close> otherwise.
  A superscript digit is no decimal digit, and CPython refuses to read more than
  \<open>sys.get_int_max_str_digits()\<close> digit characters, 4300 unless reconfigured, leading zeros
  counted. Signs, underscores and surrounding blanks, which \<open>int\<close> also reads, never pass
  \<open>isdigit()\<close>.
\<close>

definition int_max_str_digits :: int where
  "int_max_str_digits = 4300"

definition py_int :: "string \<Rightarrow> py_error + int" where
  "py_int s =
     (if s \<noteq> [] \<and> list_all py_isdecimal_char s \<and> int (length s) \<le> int_max_str_digits
      then Inr (foldl (\<lambda>a c. 10 * a + (of_char c - 48)) 0 s)
      else Inl ValueError)"

text \<open>\<open>str(n)\<close> for an integer: decimal digits, no leading zero, a minus sign when negative.\<close>

function str_digits :: "int \<Rightarrow> string" where
  "str_digits n =
     (if n < 10 then [char_of (48 + n)]
      else str_digits (n div 10) @ [char_of (48 + n mod 10)])"
  by pat_completeness auto
termination
  by (relation "measure nat") auto

declare str_digits.simps [simp del]

definition py_str_int :: "int \<Rightarrow> string" where
  "py_str_int i = (if i < 0 then CHR ''-'' # str_digits (- i) else str_digits i)"

text \<open>
  \<open>str.lower()\<close> below U+0100: A-Z and U+00C0 .. U+00DE except the multiplication sign
  U+00D7 move up by 32, every other character stays.
\<close>

definition py_lower_char :: "char \<Rightarrow> char" where
  "py_lower_char c =
     (let n = (of_char c :: int)
      in if (65 \<le> n \<and> n \<le> 90) \<or> (192 \<le> n \<and> n \<le> 222 \<and> n \<noteq> 215)
         then char_of (n + 32) else c)"

definition py_lower :: "string \<Rightarrow> string" where
  "py_lower s = map py_lower_char s"

section \<open>Location resolver: \<open>map_pincode_to_city\<close>\<close>

definition city_map :: "(string \<times> string \<times> string) list" where
  "city_map =
    [(''110001'', ''New Delhi'', ''Delhi''),
     (''400001'', ''Mumbai'', ''Maharashtra''),
     (''560001'', ''Bengaluru'', ''Karnataka''),
     (''600001'', ''Chennai'', ''Tamil Nadu''),
     (''700001'', ''Kolkata'', ''West Bengal''),
     (''500001'', ''Hyderabad'', ''Telangana''),
     (''380001'', ''Ahmedabad'', ''Gujarat'')]"

definition ranges :: "(int \<times> int \<times> string) list" where
  "ranges =
    [(110000, 110099, ''Delhi''),
     (400000, 444999, ''Maharashtra''),
     (560000, 591999, ''Karnataka''),
     (600000, 643999, ''Tamil Nadu''),
     (670000, 695999, ''Kerala''),
     (700000, 749999, ''West Bengal''),
     (500000, 534999, ''Andhra Pradesh''),
     (505000, 535999, ''Telangana''),
     (380000, 396999, ''Gujarat''),
     (180000, 194999, ''Jammu & Kashmir''),
     (750000, 769999, ''Odisha''),
     (800000, 849999, ''Bihar''),
     (820000, 839999, ''Jharkhand''),
     (140000, 160999, ''Punjab''),
     (160000, 179999, ''Haryana''),
     (201000, 285999, ''Uttar Pradesh''),
     (301000, 345999, ''Rajasthan''),
     (360000, 389999, ''Gujarat''),
     (793000, 799999, ''Meghalaya''),
     (781000, 788999, ''Assam'')]"

text \<open>The loop \<open>for start, end, state in ranges\<close>: the first range holding \<open>pin\<close> returns.\<close>

fun scan_ranges :: "(int \<times> int \<times> string) list \<Rightarrow> int \<Rightarrow> string option" where
  "scan_ranges [] pin = None"
| "scan_ranges ((start, end, state) # rs) pin =
     (if start \<le> pin \<and> pin \<le> end then Some state else scan_ranges rs pin)"

text \<open>
  The body of \<open>map_pincode_to_city\<close>, with its two local tables as arguments. The exact
  table is asked for \<open>str(pin)\<close>, the pincode read as a number and printed again; the
  placeholder city carries the pincode as it was given.
\<close>

definition resolve_with ::
  "(string \<times> string \<times> string) list \<Rightarrow> (int \<times> int \<times> string) list \<Rightarrow> string
     \<Rightarrow> py_error + (string \<times> string)" where
  "resolve_with cm rs pincode =
     (if pincode = [] \<or> \<not> py_isdigit pincode then Inr (''Unknown City'', ''Unknown State'')
      else case py_int pincode of
        Inl e \<Rightarrow> Inl e
      | Inr pin \<Rightarrow>
          (case map_of cm (py_str_int pin) of
             Some cs \<Rightarrow> Inr cs
           | None \<Rightarrow>
               (case scan_ranges rs pin of
                  Some state \<Rightarrow> Inr (''Pincode '' @ pincode, state)
                | None \<Rightarrow> Inr (''Unknown City'', ''Unknown State''))))"

definition map_pincode_to_city :: "string \<Rightarrow> py_error + (string \<times> string)" where
  "map_pincode_to_city pincode = resolve_with city_map ranges pincode"

section \<open>Price gateway: \<open>get_tomato_price_demo\<close>\<close>

definition mapping :: "(string \<times> int) list" where
  "mapping =
    [(''Ahmedabad'', 28), (''Surat'', 35), (''Mumbai'', 45), (''Delhi'', 30),
     (''Bengaluru'', 40), (''Chennai'', 38), (''Hyderabad'', 34), (''Kolkata'', 32)]"

text \<open>The loop \<open>for key in mapping\<close>, in insertion order, with the final \<open>return 32\<close>.\<close>

fun price_scan :: "(string \<times> int) list \<Rightarrow> string \<Rightarrow> int" where
  "price_scan [] city = 32"
| "price_scan ((key, price) # m) city =
     (if py_in (py_lower key) (py_lower city) then price else price_scan m city)"

definition get_tomato_price_demo :: "string \<Rightarrow> int" where
  "get_tomato_price_demo city = price_scan mapping city"

section \<open>The outside world of one request\<close>

text \<open>
  What a handler reads from outside the program during one request: the configuration, the
  answer of the weather service for a place, the outcome of each synthesis backend, the
  clock and the request's headers. A failure of the transport, a timeout or a body that is
  no JSON object is \<open>Request_failed\<close>. A temperature is kept as the text the f-string
  prints for it.
\<close>

datatype cod = Cod_number int | Cod_text string

datatype owm_reply =
  Request_failed
| Reply "cod option" "utext option" "utext option"

datatype polly_reply = Polly_raises | Polly_response bool

record env =
  OPENWEATHER_KEY :: "string option"
  openweather :: "string \<Rightarrow> owm_reply"
  polly_client :: bool
  polly_neural :: "utext \<Rightarrow> string \<Rightarrow> polly_reply"
  polly_standard :: "utext \<Rightarrow> string \<Rightarrow> polly_reply"
  audio_write :: bool
  gtts_save :: "utext \<Rightarrow> string \<Rightarrow> bool"
  unix_time :: int
  host_header :: "string option"
  url_scheme :: string

section \<open>Weather gateway: \<open>get_weather_for_place\<close>\<close>

type_synonym reading = "string \<rightharpoonup> utext"

definition default_reading :: reading where
  "default_reading = [''desc'' \<mapsto> u ''clear sky'', ''temp'' \<mapsto> u ''unknown'']"

text \<open>
  \<open>Reply c d t\<close>: \<open>c\<close> is \<open>r.get("cod")\<close>, \<open>d\<close> is \<open>r["weather"][0]["description"]\<close> and
  \<open>t\<close> is \<open>r["main"]["temp"]\<close>, \<open>None\<close> where the subscript raises; the \<open>except\<close> clause
  turns that into the default reading.
\<close>

definition get_weather_for_place :: "env \<Rightarrow> string \<Rightarrow> reading" where
  "get_weather_for_place e city_or_district =
     (if OPENWEATHER_KEY e = None \<or> OPENWEATHER_KEY e = Some [] then default_reading
      else case openweather e city_or_district of
        Request_failed \<Rightarrow> default_reading
      | Reply c d t \<Rightarrow>
          if c = Some (Cod_number 200)
          then (case d of
                  None \<Rightarrow> default_reading
                | Some desc \<Rightarrow>
                    (case t of
                       None \<Rightarrow> default_reading
                     | Some temp \<Rightarrow> [''desc'' \<mapsto> desc, ''temp'' \<mapsto> temp]))
          else default_reading)"

section \<open>Message composer: \<open>build_message\<close>\<close>

definition hi_1 :: utext where
  "hi_1 = [32, 2350, 2375, 2306, 32, 2350, 2380, 2332, 2370, 2342, 2366, 32, 2350, 2380,
           2360, 2350, 32]"

definition hi_2 :: utext where
  "hi_2 = [32, 2361, 2376, 44, 32, 2340, 2366, 2346, 2350, 2366, 2344, 32]"

definition hi_3 :: utext where
  "hi_3 = [32, 2337, 2367, 2327, 2381, 2352, 2368, 32, 2360, 2375, 2354, 2381, 2360, 2367,
           2351, 2360, 2404, 32, 2310, 2332, 32, 2335, 2350, 2366, 2335, 2352, 32, 2325,
           2366, 32, 2349, 2366, 2357, 32]"

definition hi_4 :: utext where
  "hi_4 = [32, 2352, 2369, 2346, 2351, 2375, 32, 2346, 2381, 2352, 2340, 2367, 32, 2325,
           2367, 2354, 2379, 32, 2361, 2376, 2404]"

definition gu_1 :: utext where
  "gu_1 = [32, 2734, 2750, 2690, 32, 2745, 2750, 2738, 2728, 2753, 2690, 32, 2745, 2741,
           2750, 2734, 2750, 2728, 32]"

definition gu_2 :: utext where
  "gu_2 = [32, 2715, 2759, 44, 32, 2724, 2750, 2730, 2734, 2750, 2728, 32]"

definition gu_3 :: utext where
  "gu_3 = [32, 2721, 2751, 2711, 2765, 2736, 2751, 32, 2744, 2759, 2738, 2765, 2744, 2751,
           2735, 2744, 46, 32, 2694, 2716, 2759, 32, 2719, 2750, 2734, 2759, 2719, 2750,
           2728, 2752, 32, 2709, 2751, 2690, 2734, 2724, 32]"

definition gu_4 :: utext where
  "gu_4 = [32, 2736, 2754, 2730, 2751, 2735, 2750, 32, 2730, 2765, 2736, 2724, 2751, 32,
           2709, 2751, 2738, 2763, 2711, 2765, 2736, 2750, 2734, 32, 2715, 2759, 46]"

text \<open>
  The four templates; \<open>hi_1 .. hi_4\<close> and \<open>gu_1 .. gu_4\<close> are the code points of the Hindi
  and Gujarati text between the interpolated fields.
\<close>

definition build_message :: "string \<Rightarrow> string \<Rightarrow> reading \<Rightarrow> int \<Rightarrow> utext" where
  "build_message l city weather price =
     (let desc = (case weather ''desc'' of None \<Rightarrow> u ''clear'' | Some d \<Rightarrow> d);
          temp = (case weather ''temp'' of None \<Rightarrow> u ''unknown'' | Some t \<Rightarrow> t)
      in if l = ''en''
         then u ''Current weather in '' @ u city @ u '': '' @ desc @ u '', temperature '' @ temp
              @ u '' degrees Celsius. Today'' @ [39] @ u ''s tomato price is ''
              @ u (py_str_int price) @ u '' rupees per kilogram.''
         else if l = ''hi''
         then u city @ hi_1 @ desc @ hi_2 @ temp @ hi_3 @ u (py_str_int price) @ hi_4
         else if l = ''gu''
         then u city @ gu_1 @ desc @ gu_2 @ temp @ gu_3 @ u (py_str_int price) @ gu_4
         else u ''Current weather in '' @ u city @ u '': '' @ desc @ u '', temperature '' @ temp
              @ u '' degrees Celsius. Tomato price: '' @ u (py_str_int price)
              @ u '' rupees per kilogram.'')"

section \<open>Speech synthesis\<close>

text \<open>
  \<open>synthesize_aws_polly\<close>: creating the client is outside the \<open>try\<close>; the neural request
  is retried in standard mode when it raises; a response with an audio stream is written
  to the file. Whatever else raises leaves the function.
\<close>

definition synthesize_aws_polly :: "env \<Rightarrow> utext \<Rightarrow> string \<Rightarrow> py_error + bool" where
  "synthesize_aws_polly e text voice_id =
     (if \<not> polly_client e then Inl OtherException
      else case (case polly_neural e text voice_id of
                   Polly_raises \<Rightarrow> polly_standard e text voice_id
                 | Polly_response b \<Rightarrow> Polly_response b) of
        Polly_raises \<Rightarrow> Inl OtherException
      | Polly_response stream \<Rightarrow>
          if stream then (if audio_write e then Inr True else Inl OtherException)
          else Inr False)"

definition synthesize_gtts :: "env \<Rightarrow> utext \<Rightarrow> string \<Rightarrow> bool" where
  "synthesize_gtts e text lang_code = gtts_save e text lang_code"

section \<open>Sessions and the IVR endpoints\<close>

record session =
  lang :: string
  pincode_digits :: "string list"
  step :: int

text \<open>\<open>CallSid\<close> is \<open>None\<close> when the form has no such field.\<close>

type_synonym call_sid = "string option"

type_synonym sessions = "call_sid \<rightharpoonup> session"

datatype verb =
  Gather string nat string "nat option" utext
| Say utext string
| Play string
| Redirect string
| Hangup

text \<open>
  \<open>Gather action num_digits method timeout prompt\<close> holds the nested \<open>say\<close>; \<open>Say text
  language\<close> is \<open>resp.say\<close>; a response is the list of verbs in the order appended.
\<close>

definition ivr_entry :: "verb list" where
  "ivr_entry =
     [Gather ''/language'' 1 ''POST'' None
        (u ''Press 1 for English. Press 2 for Hindi. Press 3 for Gujarati.''),
      Redirect ''/ivr'']"

definition handle_language :: "sessions \<Rightarrow> call_sid \<Rightarrow> string \<Rightarrow> sessions \<times> verb list" where
  "handle_language ss sid Digits =
     (let l = (if Digits = ''1'' then ''en''
               else if Digits = ''2'' then ''hi''
               else if Digits = ''3'' then ''gu''
               else ''en'')
      in (ss(sid \<mapsto> \<lparr>lang = l, pincode_digits = [], step = 1\<rparr>),
          [Gather ''/collect_digit'' 1 ''POST'' (Some 5)
             (u ''Please enter the first digit of your six digit pincode.'')]))"

definition default_session :: session where
  "default_session = \<lparr>lang = ''en'', pincode_digits = [], step = 1\<rparr>"

definition str_sid :: "call_sid \<Rightarrow> string" where
  "str_sid sid = (case sid of None \<Rightarrow> ''None'' | Some s \<Rightarrow> s)"

text \<open>
  The value of \<open>ok\<close> in \<open>collect_digit\<close>: English and Hindi go to Polly with the voice
  Aditi, and an exception there is caught; Gujarati goes to gTTS; for any other language
  code \<open>ok\<close> stays \<open>False\<close>.
\<close>

definition speech_ok :: "env \<Rightarrow> string \<Rightarrow> utext \<Rightarrow> bool" where
  "speech_ok e l message_text =
     (if l = ''en'' \<or> l = ''hi''
      then (case synthesize_aws_polly e message_text ''Aditi'' of
              Inl x \<Rightarrow> False
            | Inr b \<Rightarrow> b)
      else if l = ''gu'' then synthesize_gtts e message_text ''gu''
      else False)"

text \<open>
  The terminal branch of \<open>collect_digit\<close> after the pincode is resolved to \<open>cs\<close>, the pair
  of city and state; \<open>s\<close> is the session with the last digit appended. The place asked of
  the gateways is the city unless it is a placeholder or the unknown marker.
\<close>

definition location_name :: "string \<times> string \<Rightarrow> string" where
  "location_name cs =
     (if \<not> py_in ''Pincode'' (fst cs) \<and> \<not> py_in ''Unknown'' (fst cs) then fst cs else snd cs)"

definition message_text :: "env \<Rightarrow> session \<Rightarrow> string \<times> string \<Rightarrow> utext" where
  "message_text e s cs =
     build_message (lang s) (fst cs @ '', '' @ snd cs)
       (get_weather_for_place e (location_name cs))
       (get_tomato_price_demo (location_name cs))"

definition announce :: "env \<Rightarrow> call_sid \<Rightarrow> session \<Rightarrow> string \<times> string \<Rightarrow> verb list" where
  "announce e sid s cs =
     (let filename = str_sid sid @ ''_'' @ py_str_int (unix_time e) @ ''_'' @ lang s @ ''.mp3'';
          ok = speech_ok e (lang s) (message_text e s cs)
      in (if ok
          then [Play (url_scheme e @ ''://'' @ str_sid (host_header e) @ ''/audio/'' @ filename)]
          else [Say (message_text e s cs) ''en-IN''])
         @ [Hangup])"

text \<open>
  \<open>collect_digit\<close> returns the session store as the handler leaves it, together with the
  response or the exception that ends the handler. The store is written before the branch
  on \<open>step\<close>, so it keeps the appended digit when the handler raises.
\<close>

definition collect_digit ::
  "env \<Rightarrow> sessions \<Rightarrow> call_sid \<Rightarrow> string \<Rightarrow> sessions \<times> (py_error + verb list)" where
  "collect_digit e ss sid Digits =
     (let s0 = (case ss sid of None \<Rightarrow> default_session | Some x \<Rightarrow> x);
          digits = pincode_digits s0 @ [Digits];
          s = s0\<lparr>pincode_digits := digits, step := step s0 + 1\<rparr>;
          ss' = ss(sid \<mapsto> s)
      in if step s0 < 6
         then (ss', Inr [Gather ''/collect_digit'' 1 ''POST'' (Some 5)
                 (u (''Please enter digit number '' @ py_str_int (step s0 + 1)
                     @ '' of your pincode.''))])
         else case map_pincode_to_city (concat digits) of
           Inl x \<Rightarrow> (ss', Inl x)
         | Inr cs \<Rightarrow> (ss'(sid := None), Inr (announce e sid s cs)))"

text \<open>The webhook events that touch the store, and the stores they lead to.\<close>

datatype event =
  Language_selected call_sid string
| Digit_collected call_sid string

fun handle :: "env \<Rightarrow> sessions \<Rightarrow> event \<Rightarrow> sessions \<times> (py_error + verb list)" where
  "handle e ss (Language_selected sid d) =
     (fst (handle_language ss sid d), Inr (snd (handle_language ss sid d)))"
| "handle e ss (Digit_collected sid d) = collect_digit e ss sid d"

inductive reachable :: "sessions \<Rightarrow> bool" where
  start: "reachable Map.empty"
| event: "reachable ss \<Longrightarrow> reachable (fst (handle e ss ev))"

text \<open>
  An outside world in which the weather key is not configured and every synthesis backend
  fails, used for concrete runs.
\<close>

definition demo_env :: env where
  "demo_env =
     \<lparr>OPENWEATHER_KEY = None, openweather = (\<lambda>q. Request_failed), polly_client = False,
      polly_neural = (\<lambda>t v. Polly_raises), polly_standard = (\<lambda>t v. Polly_raises),
      audio_write = False, gtts_save = (\<lambda>t c. False), unix_time = 1700000000,
      host_header = Some ''ivr.example'', url_scheme = ''https''\<rparr>"

text \<open>Events run in sequence from a store, each in the same outside world.\<close>

fun run :: "env \<Rightarrow> sessions \<Rightarrow> event list \<Rightarrow> sessions" where
  "run e ss [] = ss"
| "run e ss (ev # evs) = run e (fst (handle e ss ev)) evs"

section \<open>Notions used to state the properties\<close>

text \<open>
  A range holds a number when the number lies between its two bounds, both included, as the
  test \<open>start <= pin <= end\<close> has it. \<open>first_containing\<close> is the first-listed range that
  holds the number.
\<close>

definition contains :: "int \<times> int \<times> string \<Rightarrow> int \<Rightarrow> bool" where
  "contains r n \<longleftrightarrow> fst r \<le> n \<and> n \<le> fst (snd r)"



text \<open>
  A place name contains a table key in some letter casing when one of its contiguous runs
  has the same lower-case form as the key.
\<close>

definition contains_ci :: "string \<Rightarrow> string \<Rightarrow> bool" where
  "contains_ci key name \<longleftrightarrow> list_ex (\<lambda>mid. py_lower mid = py_lower key) (sublists name)"

section \<open>The session state machine\<close>

lemma reachable_run: "reachable ss \<Longrightarrow> reachable (run e ss evs)"
  by (induction evs arbitrary: ss) (auto intro: reachable.event)

lemma str_two: "py_str_int 2 = ''2''"
  by code_simp

lemma collect_digit_step:
  "fst (collect_digit e ss sid d) sid' = Some s' \<Longrightarrow>
     (sid' \<noteq> sid \<and> ss sid' = Some s') \<or>
     (sid' = sid \<and> (\<exists>s0. (ss sid = Some s0 \<or> (ss sid = None \<and> s0 = default_session)) \<and>
        s' = s0\<lparr>pincode_digits := pincode_digits s0 @ [d], step := step s0 + 1\<rparr>))"
  by (auto simp: collect_digit_def Let_def split: option.splits sum.splits if_splits)

lemma step_invariant:
  "reachable ss \<Longrightarrow> ss sid = Some s \<Longrightarrow> step s = int (length (pincode_digits s)) + 1"
proof (induction arbitrary: sid s rule: reachable.induct)
  case start
  then show ?case by simp
next
  case (event ss e ev)
  show ?case
  proof (cases ev)
    case (Language_selected c d)
    with event show ?thesis
      by (auto simp: handle_language_def Let_def split: if_splits)
  next
    case (Digit_collected c d)
    with event.prems have "fst (collect_digit e ss c d) sid = Some s" by simp
    from collect_digit_step [OF this] event.IH show ?thesis
      by (auto simp: default_session_def)
  qed
qed

text \<open>
  C4. A language-selected event maps digit 1 to English (\<open>en\<close>), 2 to Hindi (\<open>hi\<close>), 3 to
  Gujarati (\<open>gu\<close>) and every other value to English, without an error; it creates or
  overwrites the session of the call with that language, no digits and step 1, and answers
  with a directive to collect one digit that prompts for the first pincode digit.
\<close>

theorem handle_language_selects:
  "handle_language ss sid ''1'' =
     (ss(sid \<mapsto> \<lparr>lang = ''en'', pincode_digits = [], step = 1\<rparr>),
      [Gather ''/collect_digit'' 1 ''POST'' (Some 5)
         (u ''Please enter the first digit of your six digit pincode.'')])
   \<and> handle_language ss sid ''2'' =
     (ss(sid \<mapsto> \<lparr>lang = ''hi'', pincode_digits = [], step = 1\<rparr>),
      [Gather ''/collect_digit'' 1 ''POST'' (Some 5)
         (u ''Please enter the first digit of your six digit pincode.'')])
   \<and> handle_language ss sid ''3'' =
     (ss(sid \<mapsto> \<lparr>lang = ''gu'', pincode_digits = [], step = 1\<rparr>),
      [Gather ''/collect_digit'' 1 ''POST'' (Some 5)
         (u ''Please enter the first digit of your six digit pincode.'')])
   \<and> (d \<noteq> ''1'' \<and> d \<noteq> ''2'' \<and> d \<noteq> ''3'' \<longrightarrow>
        handle_language ss sid d =
          (ss(sid \<mapsto> \<lparr>lang = ''en'', pincode_digits = [], step = 1\<rparr>),
           [Gather ''/collect_digit'' 1 ''POST'' (Some 5)
              (u ''Please enter the first digit of your six digit pincode.'')]))"
  by (simp add: handle_language_def)

theorem handle_language_selects_witness:
  "''9'' \<noteq> ''1'' \<and> ''9'' \<noteq> ''2'' \<and> ''9'' \<noteq> ''3'' \<and>
   handle_language [Some ''CA1'' \<mapsto> \<lparr>lang = ''gu'', pincode_digits = [''4'', ''0''], step = 3\<rparr>]
       (Some ''CA1'') ''9'' =
     ([Some ''CA1'' \<mapsto> \<lparr>lang = ''en'', pincode_digits = [], step = 1\<rparr>],
      [Gather ''/collect_digit'' 1 ''POST'' (Some 5)
         (u ''Please enter the first digit of your six digit pincode.'')])"
  using handle_language_selects
    [of "[Some ''CA1'' \<mapsto> \<lparr>lang = ''gu'', pincode_digits = [''4'', ''0''], step = 3\<rparr>]"
        "Some ''CA1''" "''9''"]
  by simp

text \<open>
  C3. A digit-collected event for a call that has no session in the store does not raise:
  the handler takes the default session (English, no digits, step 1) in its place, treats
  the digit as it would for that session stored under the call, stores the session with the
  digit appended at step 2, and prompts for digit 2.
\<close>

theorem unknown_call_gets_default_session:
  assumes "ss sid = None"
  shows "collect_digit e ss sid d = collect_digit e (ss(sid \<mapsto> default_session)) sid d
    \<and> default_session = \<lparr>lang = ''en'', pincode_digits = [], step = 1\<rparr>
    \<and> collect_digit e ss sid d =
        (ss(sid \<mapsto> \<lparr>lang = ''en'', pincode_digits = [d], step = 2\<rparr>),
         Inr [Gather ''/collect_digit'' 1 ''POST'' (Some 5)
                (u ''Please enter digit number 2 of your pincode.'')])"
  using assms by (simp add: collect_digit_def default_session_def str_two)

theorem unknown_call_gets_default_session_witness:
  "(Map.empty :: sessions) (Some ''CA7'') = None \<and>
   collect_digit demo_env Map.empty (Some ''CA7'') ''4'' =
     ([Some ''CA7'' \<mapsto> \<lparr>lang = ''en'', pincode_digits = [''4''], step = 2\<rparr>],
      Inr [Gather ''/collect_digit'' 1 ''POST'' (Some 5)
             (u ''Please enter digit number 2 of your pincode.'')])"
proof -
  have h: "(Map.empty :: sessions) (Some ''CA7'') = None" by simp
  from unknown_call_gets_default_session [of Map.empty "Some ''CA7''" demo_env "''4''", OF refl]
  have "collect_digit demo_env Map.empty (Some ''CA7'') ''4'' =
     ([Some ''CA7'' \<mapsto> \<lparr>lang = ''en'', pincode_digits = [''4''], step = 2\<rparr>],
      Inr [Gather ''/collect_digit'' 1 ''POST'' (Some 5)
             (u ''Please enter digit number 2 of your pincode.'')])"
    by (rule conjunct2 [THEN conjunct2])
  with h show ?thesis by (rule conjI)
qed

text \<open>
  C1. In every store the endpoints can reach, each stored session has its step counter equal
  to the number of collected digits plus one: a language selection stores step 1 with no
  digits, and a digit-collected event that leaves a session stored has appended the digit
  and raised the step by exactly one.
\<close>

theorem step_is_digits_plus_one:
  assumes "reachable ss"
  shows "(\<forall>sid s. ss sid = Some s \<longrightarrow> step s = int (length (pincode_digits s)) + 1)
    \<and> (\<forall>sid d. \<exists>s. fst (handle_language ss sid d) sid = Some s
          \<and> pincode_digits s = [] \<and> step s = 1)
    \<and> (\<forall>e sid d s'. fst (collect_digit e ss sid d) sid = Some s' \<longrightarrow>
          (\<exists>s0. (ss sid = Some s0 \<or> ss sid = None \<and> s0 = default_session)
             \<and> pincode_digits s' = pincode_digits s0 @ [d]
             \<and> step s' = step s0 + 1
             \<and> step s' = int (length (pincode_digits s')) + 1))"
proof (intro conjI allI impI)
  fix sid s assume "ss sid = Some s"
  with assms show "step s = int (length (pincode_digits s)) + 1"
    by (rule step_invariant)
next
  fix sid d
  show "\<exists>s. fst (handle_language ss sid d) sid = Some s \<and> pincode_digits s = [] \<and> step s = 1"
    by (simp add: handle_language_def)
next
  fix e sid d s'
  assume a: "fst (collect_digit e ss sid d) sid = Some s'"
  from collect_digit_step [OF a] obtain s0 where
    s0: "ss sid = Some s0 \<or> ss sid = None \<and> s0 = default_session"
    and s': "s' = s0\<lparr>pincode_digits := pincode_digits s0 @ [d], step := step s0 + 1\<rparr>"
    by auto
  from s0 assms have "step s0 = int (length (pincode_digits s0)) + 1"
    by (auto simp: default_session_def dest: step_invariant)
  with s0 s' show "\<exists>s0. (ss sid = Some s0 \<or> ss sid = None \<and> s0 = default_session)
             \<and> pincode_digits s' = pincode_digits s0 @ [d]
             \<and> step s' = step s0 + 1
             \<and> step s' = int (length (pincode_digits s')) + 1"
    by (intro exI [of _ s0]) simp
qed

theorem step_is_digits_plus_one_witness:
  "reachable (run demo_env Map.empty
       [Language_selected (Some ''CA1'') ''2'', Digit_collected (Some ''CA1'') ''4''])
   \<and> run demo_env Map.empty
       [Language_selected (Some ''CA1'') ''2'', Digit_collected (Some ''CA1'') ''4'']
       (Some ''CA1'')
     = Some \<lparr>lang = ''hi'', pincode_digits = [''4''], step = 2\<rparr>
   \<and> step \<lparr>lang = ''hi'', pincode_digits = [''4''], step = 2\<rparr>
     = int (length (pincode_digits \<lparr>lang = ''hi'', pincode_digits = [''4''], step = 2\<rparr>)) + 1"
proof -
  let ?ss = "run demo_env Map.empty
       [Language_selected (Some ''CA1'') ''2'', Digit_collected (Some ''CA1'') ''4'']"
  have r: "reachable ?ss"
    by (rule reachable_run [OF reachable.start])
  have v: "?ss (Some ''CA1'') = Some \<lparr>lang = ''hi'', pincode_digits = [''4''], step = 2\<rparr>"
    by (simp add: handle_language_def collect_digit_def)
  from step_is_digits_plus_one [OF r] v
  have "step \<lparr>lang = ''hi'', pincode_digits = [''4''], step = 2\<rparr>
     = int (length (pincode_digits \<lparr>lang = ''hi'', pincode_digits = [''4''], step = 2\<rparr>)) + 1"
    by blast
  with r v show ?thesis by blast
qed

lemma collect_digit_others:
  "sid' \<noteq> sid \<Longrightarrow> fst (collect_digit e ss sid d) sid' = ss sid'"
  by (simp add: collect_digit_def Let_def split: sum.splits)

lemma bad_pincode: "map_pincode_to_city (concat [''1'', ''1'', ''0'', ''0'', ''0'', [CHR 0xB2]]) = Inl ValueError"
  by code_simp

lemma bad_pincode7: "map_pincode_to_city (concat [''1'', ''1'', ''0'', ''0'', ''0'', [CHR 0xB2], ''1'']) = Inl ValueError"
  by code_simp

lemma resolver_error: "map_pincode_to_city p = Inl x \<Longrightarrow> x = ValueError"
  by (auto simp: map_pincode_to_city_def resolve_with_def py_int_def
      split: if_splits sum.splits option.splits)

lemma collect_digit_stored:
  assumes "fst (collect_digit e ss sid d) sid = Some s'"
  shows "\<exists>s0. (ss sid = Some s0 \<or> ss sid = None \<and> s0 = default_session)
    \<and> s' = s0\<lparr>pincode_digits := pincode_digits s0 @ [d], step := step s0 + 1\<rparr>
    \<and> (step s0 < 6 \<or> map_pincode_to_city (concat (pincode_digits s0 @ [d])) = Inl ValueError)"
proof -
  define s0 where "s0 = (case ss sid of None \<Rightarrow> default_session | Some x \<Rightarrow> x)"
  have a: "ss sid = Some s0 \<or> ss sid = None \<and> s0 = default_session"
    by (auto simp: s0_def split: option.splits)
  from assms have b: "s' = s0\<lparr>pincode_digits := pincode_digits s0 @ [d], step := step s0 + 1\<rparr>"
    and c: "step s0 < 6 \<or> (\<exists>x. map_pincode_to_city (concat (pincode_digits s0 @ [d])) = Inl x)"
    by (auto simp: collect_digit_def Let_def s0_def split: if_splits sum.splits)
  from c have "step s0 < 6 \<or> map_pincode_to_city (concat (pincode_digits s0 @ [d])) = Inl ValueError"
    using resolver_error by blast
  with a b show ?thesis by blast
qed

lemma six_digits_only_after_raise:
  "reachable ss \<Longrightarrow> ss sid = Some s \<Longrightarrow> 6 \<le> k \<Longrightarrow> k \<le> length (pincode_digits s) \<Longrightarrow>
     map_pincode_to_city (concat (take k (pincode_digits s))) = Inl ValueError"
proof (induction arbitrary: sid s rule: reachable.induct)
  case start
  then show ?case by simp
next
  case (event ss e ev)
  show ?case
  proof (cases ev)
    case (Language_selected c d)
    with event.prems event.IH show ?thesis
      by (auto simp: handle_language_def split: if_splits)
  next
    case (Digit_collected c d)
    with event.prems(1) have st: "fst (collect_digit e ss c d) sid = Some s" by simp
    show ?thesis
    proof (cases "sid = c")
      case False
      with st have "ss sid = Some s" by (simp add: collect_digit_others)
      then show ?thesis using event.prems(2,3) by (rule event.IH)
    next
      case True
      with st have "fst (collect_digit e ss sid d) sid = Some s" by simp
      from collect_digit_stored [OF this] obtain s0 where
        s0: "ss sid = Some s0 \<or> ss sid = None \<and> s0 = default_session"
        and s: "s = s0\<lparr>pincode_digits := pincode_digits s0 @ [d], step := step s0 + 1\<rparr>"
        and r: "step s0 < 6
          \<or> map_pincode_to_city (concat (pincode_digits s0 @ [d])) = Inl ValueError"
        by blast
      have inv: "step s0 = int (length (pincode_digits s0)) + 1"
        using s0 event.hyps by (auto simp: default_session_def dest: step_invariant)
      show ?thesis
      proof (cases "k \<le> length (pincode_digits s0)")
        case True
        with event.prems(2) s0 have "ss sid = Some s0" by (auto simp: default_session_def)
        from event.IH [OF this event.prems(2) True] s True show ?thesis by simp
      next
        case False
        with event.prems(3) s have k: "k = length (pincode_digits s0) + 1" by simp
        with event.prems(2) inv have "\<not> step s0 < 6" by simp
        with r k s show ?thesis by simp
      qed
    qed
  qed
qed

text \<open>
  C2. No stored session is to hold more than 6 digits, and a digit is not to be accepted
  for a session that already holds 6. \<open>six_digits_only_after_raise\<close> shows that in every
  reachable store a session holds 6 or more digits only when the resolver raised on them,
  that is, when a terminal transition of that call ended in an exception before the session
  was removed. That happens: after the language selection and the digits 1, 1, 0, 0, 0, a
  sixth digit that is the superscript two leaves the session stored with 6 digits at step
  7, and the next digit-collected event is accepted and stores a seventh digit.
\<close>

theorem seventh_digit_stored:
  "reachable (run demo_env Map.empty
       [Language_selected (Some ''CA1'') ''1'', Digit_collected (Some ''CA1'') ''1'',
        Digit_collected (Some ''CA1'') ''1'', Digit_collected (Some ''CA1'') ''0'',
        Digit_collected (Some ''CA1'') ''0'', Digit_collected (Some ''CA1'') ''0'',
        Digit_collected (Some ''CA1'') [CHR 0xB2]])
   \<and> run demo_env Map.empty
       [Language_selected (Some ''CA1'') ''1'', Digit_collected (Some ''CA1'') ''1'',
        Digit_collected (Some ''CA1'') ''1'', Digit_collected (Some ''CA1'') ''0'',
        Digit_collected (Some ''CA1'') ''0'', Digit_collected (Some ''CA1'') ''0'',
        Digit_collected (Some ''CA1'') [CHR 0xB2]] (Some ''CA1'')
     = Some \<lparr>lang = ''en'',
              pincode_digits = [''1'', ''1'', ''0'', ''0'', ''0'', [CHR 0xB2]], step = 7\<rparr>
   \<and> collect_digit demo_env
        (run demo_env Map.empty
          [Language_selected (Some ''CA1'') ''1'', Digit_collected (Some ''CA1'') ''1'',
           Digit_collected (Some ''CA1'') ''1'', Digit_collected (Some ''CA1'') ''0'',
           Digit_collected (Some ''CA1'') ''0'', Digit_collected (Some ''CA1'') ''0'',
           Digit_collected (Some ''CA1'') [CHR 0xB2]])
        (Some ''CA1'') ''1''
     = ([Some ''CA1'' \<mapsto> \<lparr>lang = ''en'',
              pincode_digits = [''1'', ''1'', ''0'', ''0'', ''0'', [CHR 0xB2], ''1''],
              step = 8\<rparr>],
        Inl ValueError)"
proof -
  let ?evs = "[Language_selected (Some ''CA1'') ''1'', Digit_collected (Some ''CA1'') ''1'',
        Digit_collected (Some ''CA1'') ''1'', Digit_collected (Some ''CA1'') ''0'',
        Digit_collected (Some ''CA1'') ''0'', Digit_collected (Some ''CA1'') ''0'',
        Digit_collected (Some ''CA1'') [CHR 0xB2]]"
  have r: "reachable (run demo_env Map.empty ?evs)"
    by (rule reachable_run [OF reachable.start])
  have v: "run demo_env Map.empty ?evs =
      [Some ''CA1'' \<mapsto> \<lparr>lang = ''en'',
              pincode_digits = [''1'', ''1'', ''0'', ''0'', ''0'', [CHR 0xB2]], step = 7\<rparr>]"
    using bad_pincode by (simp add: handle_language_def collect_digit_def)
  have w: "collect_digit demo_env (run demo_env Map.empty ?evs) (Some ''CA1'') ''1''
     = ([Some ''CA1'' \<mapsto> \<lparr>lang = ''en'',
              pincode_digits = [''1'', ''1'', ''0'', ''0'', ''0'', [CHR 0xB2], ''1''],
              step = 8\<rparr>],
        Inl ValueError)"
    unfolding v using bad_pincode7 by (simp add: collect_digit_def)
  from r v w show ?thesis by simp
qed

lemma announce_cases:
  "announce e sid s cs =
     (if speech_ok e (lang s) (message_text e s cs)
      then [Play (url_scheme e @ ''://'' @ str_sid (host_header e) @ ''/audio/'' @ str_sid sid
                  @ ''_'' @ py_str_int (unix_time e) @ ''_'' @ lang s @ ''.mp3''), Hangup]
      else [Say (message_text e s cs) ''en-IN'', Hangup])"
  by (simp add: announce_def)

lemma announce_fallback:
  "\<not> speech_ok e (lang s) (message_text e s cs) \<Longrightarrow>
     announce e sid s cs = [Say (message_text e s cs) ''en-IN'', Hangup]"
  by (simp add: announce_cases)

lemma announce_ends_with_hangup: "last (announce e sid s cs) = Hangup"
  by (simp add: announce_cases)

lemma terminal_response:
  assumes "s0 = (case ss sid of None \<Rightarrow> default_session | Some x \<Rightarrow> x)"
    and "6 \<le> step s0"
    and "map_pincode_to_city (concat (pincode_digits s0 @ [d])) = Inr cs"
  shows "collect_digit e ss sid d =
     (ss(sid := None),
      Inr (announce e sid (s0\<lparr>pincode_digits := pincode_digits s0 @ [d], step := step s0 + 1\<rparr>) cs))"
  using assms by (simp add: collect_digit_def Let_def)

text \<open>
  C9. In a terminal transition whose synthesis fails the response is to be the spoken
  fallback with exactly the composed text, and every terminal transition is to end with a
  hangup. Where the pincode resolves, the lemmas above give both: the response is
  \<open>announce\<close>, which ends with \<open>Hangup\<close> and is \<open>Say\<close> of the composed text when synthesis
  fails. Where the sixth digit is a superscript digit the resolver raises inside the
  terminal transition, nothing catches it, and the handler returns no response at all.
\<close>

theorem terminal_transition_raises:
  "snd (collect_digit demo_env
         [Some ''CA1'' \<mapsto> \<lparr>lang = ''en'', pincode_digits = [''1'', ''1'', ''0'', ''0'', ''0''],
                             step = 6\<rparr>]
         (Some ''CA1'') [CHR 0xB2]) = Inl ValueError"
  using bad_pincode by (simp add: collect_digit_def)

section \<open>The location resolver\<close>

lemma scan_ranges_none:
  "\<forall>r \<in> set rs. \<not> contains r n \<Longrightarrow> scan_ranges rs n = None"
  by (induction rs) (auto simp: contains_def)

lemma py_int_isdigit: "py_int p = Inr n \<Longrightarrow> p \<noteq> [] \<and> py_isdigit p"
  by (auto simp: py_int_def py_isdigit_def py_isdigit_char_def list_all_iff split: if_splits)

lemma city_map_entries:
  "\<forall>(k, v) \<in> set city_map.
     (case py_int k of Inl x \<Rightarrow> False | Inr n \<Rightarrow> map_of city_map (py_str_int n) = Some v)"
  by code_simp

lemma resolve_exact:
  "py_int p = Inr n \<Longrightarrow> map_of cm (py_str_int n) = Some cs \<Longrightarrow> resolve_with cm rs p = Inr cs"
  by (frule py_int_isdigit) (simp add: resolve_with_def)

text \<open>
  C5. For every postal code that is a key of the exact-match table, the resolver returns the
  city and region the table gives for it, whatever the range table holds: the exact match
  is taken before any range is looked at.
\<close>

theorem exact_match_first:
  assumes "map_of city_map p = Some cs"
  shows "map_pincode_to_city p = Inr cs \<and> (\<forall>rs. resolve_with city_map rs p = Inr cs)"
proof -
  from assms have "(p, cs) \<in> set city_map" by (rule map_of_SomeD)
  with city_map_entries
  have "case py_int p of Inl x \<Rightarrow> False | Inr n \<Rightarrow> map_of city_map (py_str_int n) = Some cs"
    by blast
  then obtain n where "py_int p = Inr n" "map_of city_map (py_str_int n) = Some cs"
    by (auto split: sum.splits)
  then have "resolve_with city_map rs p = Inr cs" for rs by (rule resolve_exact)
  then show ?thesis by (simp add: map_pincode_to_city_def)
qed

theorem exact_match_first_witness:
  "map_of city_map ''500001'' = Some (''Hyderabad'', ''Telangana'')
   \<and> map_pincode_to_city ''500001'' = Inr (''Hyderabad'', ''Telangana'')
   \<and> resolve_with city_map [(500000, 534999, ''Andhra Pradesh'')] ''500001''
       = Inr (''Hyderabad'', ''Telangana'')"
proof -
  have h: "map_of city_map ''500001'' = Some (''Hyderabad'', ''Telangana'')"
    by (simp add: city_map_def)
  from exact_match_first [OF h] h show ?thesis by blast
qed






lemma non_numeric_unknown:
  "p = [] \<or> \<not> py_isdigit p \<Longrightarrow> resolve_with cm rs p = Inr (''Unknown City'', ''Unknown State'')"
  by (auto simp: resolve_with_def)

lemma unmatched_unknown:
  "py_int p = Inr n \<Longrightarrow> map_of cm (py_str_int n) = None \<Longrightarrow> \<forall>r \<in> set rs. \<not> contains r n \<Longrightarrow>
     resolve_with cm rs p = Inr (''Unknown City'', ''Unknown State'')"
  by (frule py_int_isdigit) (simp add: resolve_with_def scan_ranges_none)

lemma superscript_raises:
  "py_isdigit p \<Longrightarrow> \<not> list_all py_isdecimal_char p \<Longrightarrow> resolve_with cm rs p = Inl ValueError"
  by (auto simp: resolve_with_def py_int_def py_isdigit_def)

lemma too_long_raises:
  "py_isdigit p \<Longrightarrow> int_max_str_digits < int (length p) \<Longrightarrow> resolve_with cm rs p = Inl ValueError"
  by (auto simp: resolve_with_def py_int_def py_isdigit_def)

text \<open>
  C7. The resolver is to return the pair Unknown City, Unknown State, and never raise, for
  every input that is empty or not numeric and for every numeric input that matches neither
  table. \<open>non_numeric_unknown\<close> and \<open>unmatched_unknown\<close> give the pair where the input
  fails \<open>isdigit()\<close> and where its decimal value matches nothing. A pincode with a
  superscript digit passes \<open>isdigit()\<close> and then makes \<open>int()\<close> raise \<open>ValueError\<close>, so there
  the resolver raises; a run of more than 4300 digits does the same.
\<close>

theorem resolver_raises_on_superscript_digit:
  "py_isdigit [CHR 0xB2] \<and> map_pincode_to_city [CHR 0xB2] = Inl ValueError
   \<and> py_isdigit (''11000'' @ [CHR 0xB2])
   \<and> map_pincode_to_city (''11000'' @ [CHR 0xB2]) = Inl ValueError"
  by code_simp

section \<open>The price and weather gateways\<close>

lemma starts_with_prefix: "starts_with xs ys \<longleftrightarrow> prefix xs ys"
  by (induction xs ys rule: starts_with.induct) simp_all

lemma py_in_sublist: "py_in xs ys \<longleftrightarrow> sublist xs ys"
  by (induction ys) (simp_all add: starts_with_prefix sublist_Cons_right)

lemma sublist_map_iff:
  "sublist (map f k) (map f c) \<longleftrightarrow> (\<exists>mid. sublist mid c \<and> map f mid = map f k)"
proof
  assume "sublist (map f k) (map f c)"
  then obtain mid where "sublist mid c" "map f k = map f mid"
    using sublist_map_rightE by blast
  then show "\<exists>mid. sublist mid c \<and> map f mid = map f k" by auto
next
  assume "\<exists>mid. sublist mid c \<and> map f mid = map f k"
  then obtain mid where m: "sublist mid c" "map f mid = map f k" by blast
  from m(1) obtain ps ss where "c = ps @ mid @ ss" by (auto simp: sublist_def)
  then have "map f c = map f ps @ map f k @ map f ss" using m(2) by simp
  then show "sublist (map f k) (map f c)" by (metis sublist_appendI)
qed

lemma contains_ci_iff: "contains_ci key name \<longleftrightarrow> py_in (py_lower key) (py_lower name)"
  by (auto simp: contains_ci_def list_ex_iff py_in_sublist py_lower_def sublist_map_iff)

lemma price_scan_none:
  "\<forall>e \<in> set m. \<not> contains_ci (fst e) place \<Longrightarrow> price_scan m place = 32"
  by (induction m) (auto simp: contains_ci_iff)

lemma price_scan_first:
  "i < length m \<Longrightarrow> contains_ci (fst (m ! i)) place \<Longrightarrow>
   \<forall>e \<in> set (take i m). \<not> contains_ci (fst e) place \<Longrightarrow> price_scan m place = snd (m ! i)"
proof (induction m arbitrary: i)
  case Nil
  then show ?case by simp
next
  case (Cons x m)
  obtain k v where x: "x = (k, v)" by (cases x)
  show ?case
  proof (cases i)
    case 0
    with Cons.prems x show ?thesis by (simp add: contains_ci_iff)
  next
    case (Suc j)
    with Cons.prems x have "\<not> py_in (py_lower k) (py_lower place)"
      by (simp add: contains_ci_iff)
    moreover from Suc Cons.prems have "price_scan m place = snd (m ! j)"
      by (intro Cons.IH) simp_all
    ultimately show ?thesis using x Suc by simp
  qed
qed

text \<open>
  C10. The price lookup goes through its table in order and tests whether the key occurs in
  the place name, both in lower case: a place name that contains a table key in some letter
  casing gets the price of the first such key in table order, and a place name that
  contains no table key gets 32.
\<close>

theorem price_of_first_contained_key:
  "(i < length mapping \<and> contains_ci (fst (mapping ! i)) place
      \<and> (\<forall>e \<in> set (take i mapping). \<not> contains_ci (fst e) place)
      \<longrightarrow> get_tomato_price_demo place = snd (mapping ! i))
   \<and> ((\<forall>e \<in> set mapping. \<not> contains_ci (fst e) place) \<longrightarrow> get_tomato_price_demo place = 32)"
  by (auto simp: get_tomato_price_demo_def price_scan_first price_scan_none)

theorem price_of_first_contained_key_witness:
  "(2 :: nat) < length mapping
   \<and> mapping ! 2 = (''Mumbai'', 45)
   \<and> contains_ci ''Mumbai'' ''Navi MUMBAI''
   \<and> list_all (\<lambda>e. \<not> contains_ci (fst e) ''Navi MUMBAI'') (take 2 mapping)
   \<and> get_tomato_price_demo ''Navi MUMBAI'' = 45
   \<and> list_all (\<lambda>e. \<not> contains_ci (fst e) ''Pune'') mapping
   \<and> get_tomato_price_demo ''Pune'' = 32"
proof -
  have a: "(2 :: nat) < length mapping" by (simp add: mapping_def)
  have b: "mapping ! 2 = (''Mumbai'', 45)" by (simp add: mapping_def)
  have c: "contains_ci ''Mumbai'' ''Navi MUMBAI''" by code_simp
  have d: "\<forall>e \<in> set (take 2 mapping). \<not> contains_ci (fst e) ''Navi MUMBAI''" by code_simp
  have e: "\<forall>e \<in> set mapping. \<not> contains_ci (fst e) ''Pune''" by code_simp
  from price_of_first_contained_key [of 2 "''Navi MUMBAI''"] a b c d
  have f: "get_tomato_price_demo ''Navi MUMBAI'' = 45" by simp
  from price_of_first_contained_key [of 0 "''Pune''"] e
  have g: "get_tomato_price_demo ''Pune'' = 32" by blast
  from d have d': "list_all (\<lambda>e. \<not> contains_ci (fst e) ''Navi MUMBAI'') (take 2 mapping)"
    by (simp add: list_all_iff)
  from e have e': "list_all (\<lambda>e. \<not> contains_ci (fst e) ''Pune'') mapping"
    by (simp add: list_all_iff)
  from a b c d' e' f g show ?thesis by blast
qed










end
